theory Spec2Isabelle
  imports Main
begin

section \<open>Values\<close>

text \<open>
  The module \<^verbatim>\<open>mozci/buildjson.py\<close> is Python 2.7 code working on what
  \<^verbatim>\<open>json.load\<close> returns. A parsed JSON document is a value of \<open>json\<close>:
  an object is the list of the (key, value) pairs of the parsed dict, each key once, a
  number is an integer or a float, a float is \<open>m * 2 ^ e\<close>, an infinity or
  not-a-number.
\<close>

datatype pyfloat = Finite int int | PosInf | NegInf | NaN

datatype json =
    JNull
  | JBool bool
  | JInt int
  | JFloat pyfloat
  | JStr string
  | JList "json list"
  | JObj "(string \<times> json) list"

text \<open>
  The arguments a caller can pass to \<^verbatim>\<open>query_buildjson_info\<close>: Python 2 has the two
  integer types \<^verbatim>\<open>int\<close> and \<^verbatim>\<open>long\<close>, and \<^verbatim>\<open>bool\<close> is a subclass of
  \<^verbatim>\<open>int\<close> with a type object of its own.
\<close>

datatype pyval =
    PyInt int
  | PyLong int
  | PyBool bool
  | PyFloat pyfloat
  | PyStr string
  | PyNone

text \<open>The exceptions the module can raise or let through.\<close>

datatype error =
    AssertionError
  | ValueError
  | KeyError string
  | TypeError
  | IOError
  | RequestException string

section \<open>Python operators on parsed JSON\<close>

text \<open>\<^verbatim>\<open>type(x) is int\<close>: the exact type, so neither a long nor a bool passes.\<close>

fun type_is_int :: "pyval \<Rightarrow> bool" where
  "type_is_int (PyInt n) = True"
| "type_is_int v = False"

fun int_of :: "pyval \<Rightarrow> int" where
  "int_of (PyInt n) = n"
| "int_of (PyLong n) = n"
| "int_of (PyBool b) = (if b then 1 else 0)"
| "int_of v = 0"

text \<open>
  \<^verbatim>\<open>x == r\<close> for an integer \<open>r\<close>: Python compares an integer with a float exactly,
  \<^verbatim>\<open>True == 1\<close> and \<^verbatim>\<open>False == 0\<close> hold, and no other JSON value equals an integer.
\<close>

fun float_eq_int :: "pyfloat \<Rightarrow> int \<Rightarrow> bool" where
  "float_eq_int (Finite m e) r =
     (if 0 \<le> e then r = m * 2 ^ nat e else r * 2 ^ nat (- e) = m)"
| "float_eq_int f r = False"

fun py_eq_int :: "json \<Rightarrow> int \<Rightarrow> bool" where
  "py_eq_int (JInt n) r = (n = r)"
| "py_eq_int (JBool b) r = (r = (if b then 1 else 0))"
| "py_eq_int (JFloat f) r = float_eq_int f r"
| "py_eq_int v r = False"

text \<open>
  \<^verbatim>\<open>r in x\<close> for an integer \<open>r\<close>: a list is searched with \<^verbatim>\<open>==\<close>, the keys of a
  dict are strings and never equal an integer, a string refuses an integer on the left,
  and the other values are not containers.
\<close>

fun contains :: "int \<Rightarrow> json \<Rightarrow> error + bool" where
  "contains r (JList xs) = Inr (list_ex (\<lambda>x. py_eq_int x r) xs)"
| "contains r (JObj kvs) = Inr False"
| "contains r v = Inl TypeError"

text \<open>\<^verbatim>\<open>x[key]\<close> for a string key: only a dict has string subscripts.\<close>

fun getitem :: "json \<Rightarrow> string \<Rightarrow> error + json" where
  "getitem (JObj kvs) key =
     (case map_of kvs key of None \<Rightarrow> Inl (KeyError key) | Some v \<Rightarrow> Inr v)"
| "getitem v key = Inl TypeError"

text \<open>
  \<^verbatim>\<open>for job in x\<close>: a list yields its elements, a dict its keys, a string its
  characters; nothing else is iterable.
\<close>

fun py_iter :: "json \<Rightarrow> error + json list" where
  "py_iter (JList xs) = Inr xs"
| "py_iter (JObj kvs) = Inr (map (\<lambda>kv. JStr (fst kv)) kvs)"
| "py_iter (JStr s) = Inr (map (\<lambda>c. JStr [c]) s)"
| "py_iter v = Inl TypeError"

section \<open>The scan of \<^verbatim>\<open>query_buildjson_info\<close>\<close>

text \<open>
  \<^verbatim>\<open>
  for job in builds:
      if request_id in job["request_ids"]:
          return job
  \<close>
  Falling off the end of the function returns \<^verbatim>\<open>None\<close>, here \<open>Inr None\<close>.
\<close>

fun scan_builds :: "int \<Rightarrow> json list \<Rightarrow> error + json option" where
  "scan_builds r [] = Inr None"
| "scan_builds r (job # rest) =
     (case getitem job ''request_ids'' of
        Inl e \<Rightarrow> Inl e
      | Inr ids \<Rightarrow>
          (case contains r ids of
             Inl e \<Rightarrow> Inl e
           | Inr found \<Rightarrow> if found then Inr (Some job) else scan_builds r rest))"

text \<open>
  A record as the docstring describes it, as far as the scan reads it: a dict whose
  \<^verbatim>\<open>request_ids\<close> entry is a list.
\<close>

definition has_request_ids :: "json \<Rightarrow> bool" where
  "has_request_ids job =
     (case getitem job ''request_ids'' of Inr (JList ids) \<Rightarrow> True | _ \<Rightarrow> False)"

text \<open>The record is reachable by the request id: the id is in its \<^verbatim>\<open>request_ids\<close> list.\<close>

definition matches :: "int \<Rightarrow> json \<Rightarrow> bool" where
  "matches r job =
     (case getitem job ''request_ids'' of
        Inr (JList ids) \<Rightarrow> list_ex (\<lambda>x. py_eq_int x r) ids
      | _ \<Rightarrow> False)"

section \<open>The day of a timestamp\<close>

text \<open>
  \<^verbatim>\<open>datetime.datetime.fromtimestamp(unix_timestamp)\<close> converts to the local time of
  the host: the host's time zone is the function \<open>tz\<close>, giving the offset from UTC in
  seconds that is in force at an instant. The calendar is the proleptic Gregorian one,
  computed from the number of days since 1970-01-01.
\<close>

type_synonym timezone = "int \<Rightarrow> int"

definition fixed_zone :: "int \<Rightarrow> timezone" where
  "fixed_zone off ts = off"

definition civil_from_days :: "int \<Rightarrow> int \<times> int \<times> int" where
  "civil_from_days days =
     (let z = days + 719468;
          era = z div 146097;
          doe = z - era * 146097;
          yoe = (doe - doe div 1460 + doe div 36524 - doe div 146096) div 365;
          y = yoe + era * 400;
          doy = doe - (365 * yoe + yoe div 4 - yoe div 100);
          mp = (5 * doy + 2) div 153;
          d = doy - (153 * mp + 2) div 5 + 1;
          m = (if mp < 10 then mp + 3 else mp - 9)
      in (if m \<le> 2 then y + 1 else y, m, d))"

text \<open>\<^verbatim>\<open>fromtimestamp\<close> raises ValueError when the year leaves 1..9999.\<close>

definition fromtimestamp :: "timezone \<Rightarrow> int \<Rightarrow> error + int \<times> int \<times> int" where
  "fromtimestamp tz ts =
     (let (y, m, d) = civil_from_days ((ts + tz ts) div 86400)
      in if 1 \<le> y \<and> y \<le> 9999 then Inr (y, m, d) else Inl ValueError)"

definition digit_char :: "int \<Rightarrow> char" where
  "digit_char n = ''0123456789'' ! nat (n mod 10)"

definition two_digits :: "int \<Rightarrow> string" where
  "two_digits n = [digit_char (n div 10), digit_char n]"

definition four_digits :: "int \<Rightarrow> string" where
  "four_digits n =
     [digit_char (n div 1000), digit_char (n div 100), digit_char (n div 10), digit_char n]"

text \<open>
  \<^verbatim>\<open>.strftime('%Y-%m-%d')\<close>; Python 2.7 raises ValueError for a year before 1900.
\<close>

definition strftime_Ymd :: "int \<times> int \<times> int \<Rightarrow> error + string" where
  "strftime_Ymd dt =
     (case dt of (y, m, d) \<Rightarrow>
        if y < 1900 then Inl ValueError
        else Inr (four_digits y @ ''-'' @ two_digits m @ ''-'' @ two_digits d))"

text \<open>Lines 26 and 27: the date string and the name of the local file.\<close>

definition date_of :: "timezone \<Rightarrow> int \<Rightarrow> error + string" where
  "date_of tz unix_timestamp =
     (case fromtimestamp tz unix_timestamp of
        Inl e \<Rightarrow> Inl e
      | Inr dt \<Rightarrow> strftime_Ymd dt)"

definition data_file_of :: "timezone \<Rightarrow> int \<Rightarrow> error + string" where
  "data_file_of tz unix_timestamp =
     (case date_of tz unix_timestamp of
        Inl e \<Rightarrow> Inl e
      | Inr date \<Rightarrow> Inr (''builds-'' @ date @ ''.js''))"

definition BUILDJSON_DATA :: string where
  "BUILDJSON_DATA = ''http://builddata.pub.build.mozilla.org/builddata/buildjson''"

text \<open>Line 32: the remote locator of a local file name.\<close>

definition url_of :: "string \<Rightarrow> string" where
  "url_of data_file = BUILDJSON_DATA @ ''/'' @ data_file @ ''.gz''"

section \<open>The archive of a day\<close>

text \<open>
  The working directory is a map from file names to contents; it is taken to be
  writable and to hold regular files only. \<^verbatim>\<open>requests.get(url)\<close> either raises or
  returns a response, whose body it has read (and decompressed) in full; what it does
  at the time of a call is the function \<open>net\<close>. \<^verbatim>\<open>json.load\<close> is the function
  \<open>loads\<close>, with \<open>None\<close> for a text that is not JSON. A call returns its value or the
  exception, the directory it leaves, and the requests it has sent.
\<close>

type_synonym files = "string \<rightharpoonup> string"

datatype response = Response (status_code: int) (content: string)

type_synonym network = "string \<Rightarrow> error + response"

datatype fetch = Fetch (url: string) (answered: bool)

function iter_content :: "nat \<Rightarrow> string \<Rightarrow> string list" where
  "iter_content chunk_size body =
     (if chunk_size = 0 \<or> body = [] then []
      else take chunk_size body # iter_content chunk_size (drop chunk_size body))"
  by pat_completeness auto
termination
  by (relation "measure (\<lambda>(chunk_size, body). length body)") auto

text \<open>\<^verbatim>\<open>fd.write(chunk)\<close> for each chunk, on a file opened empty.\<close>

definition write_chunks :: "string list \<Rightarrow> string" where
  "write_chunks chunks = foldl (\<lambda>written chunk. written @ chunk) [] chunks"

text \<open>\<^verbatim>\<open>json.load(open(data_file))\<close>\<close>

definition json_load :: "(string \<Rightarrow> json option) \<Rightarrow> files \<Rightarrow> string \<Rightarrow> error + json" where
  "json_load loads fs data_file =
     (case fs data_file of
        None \<Rightarrow> Inl IOError
      | Some text \<Rightarrow> (case loads text of None \<Rightarrow> Inl ValueError | Some v \<Rightarrow> Inr v))"

definition daily_jobs ::
  "timezone \<Rightarrow> (string \<Rightarrow> json option) \<Rightarrow> network \<Rightarrow> files \<Rightarrow> int
     \<Rightarrow> (error + json) \<times> files \<times> fetch list" where
  "daily_jobs tz loads net fs unix_timestamp =
     (case data_file_of tz unix_timestamp of
        Inl e \<Rightarrow> (Inl e, fs, [])
      | Inr data_file \<Rightarrow>
          if fs data_file = None then
            (case net (url_of data_file) of
               Inl e \<Rightarrow> (Inl e, fs, [Fetch (url_of data_file) False])
             | Inr r \<Rightarrow>
                 (let fs' = fs(data_file \<mapsto> write_chunks (iter_content 1024 (content r)))
                  in (json_load loads fs' data_file, fs', [Fetch (url_of data_file) True])))
          else (json_load loads fs data_file, fs, []))"

text \<open>Calls of \<^verbatim>\<open>_daily_jobs\<close> one after the other, each with the network of its time.\<close>

fun daily_jobs_calls ::
  "timezone \<Rightarrow> (string \<Rightarrow> json option) \<Rightarrow> files \<Rightarrow> (network \<times> int) list
     \<Rightarrow> (error + json) list \<times> files \<times> fetch list" where
  "daily_jobs_calls tz loads fs [] = ([], fs, [])"
| "daily_jobs_calls tz loads fs (c # cs) =
     (case daily_jobs tz loads (fst c) fs (snd c) of
        (r, fs1, sent1) \<Rightarrow>
          (case daily_jobs_calls tz loads fs1 cs of
             (rs, fs2, sent2) \<Rightarrow> (r # rs, fs2, sent1 @ sent2)))"

section \<open>\<^verbatim>\<open>query_buildjson_info\<close>\<close>

definition query_buildjson_info ::
  "timezone \<Rightarrow> (string \<Rightarrow> json option) \<Rightarrow> network \<Rightarrow> files \<Rightarrow> pyval \<Rightarrow> pyval
     \<Rightarrow> (error + json option) \<times> files \<times> fetch list" where
  "query_buildjson_info tz loads net fs claimed_at request_id =
     (if \<not> type_is_int request_id then (Inl AssertionError, fs, [])
      else if \<not> type_is_int claimed_at then (Inl AssertionError, fs, [])
      else
        (case daily_jobs tz loads net fs (int_of claimed_at) of
           (Inl e, fs', sent) \<Rightarrow> (Inl e, fs', sent)
         | (Inr status_data, fs', sent) \<Rightarrow>
             (case getitem status_data ''builds'' of
                Inl e \<Rightarrow> (Inl e, fs', sent)
              | Inr builds \<Rightarrow>
                  (case py_iter builds of
                     Inl e \<Rightarrow> (Inl e, fs', sent)
                   | Inr jobs \<Rightarrow> (scan_builds (int_of request_id) jobs, fs', sent)))))"

section \<open>The repository registry\<close>

text \<open>
  Modelled from the spec: the types of \<^verbatim>\<open>mozci/sources/buildapi.py\<close>, of which the
  repository holds the tests only. A RepositoryInfo has the fields \<^verbatim>\<open>repo\<close>,
  \<^verbatim>\<open>graph_branches\<close> and \<^verbatim>\<open>repo_type\<close>; the registry maps short names to them.
\<close>

record repository_info =
  repo :: string
  graph_branches :: "string list"
  repo_type :: string

type_synonym registry = "(string \<times> repository_info) list"

text \<open>
  Modelled from the spec: the disk tier of the registry, absent from the sources. The
  snapshot file is absent, holds text that is not JSON, or holds a registry.
\<close>

datatype snapshot = Missing | Malformed | Stored registry

text \<open>Modelled from the spec: the error taxonomy of section 7, absent from the sources.\<close>

datatype registry_error =
    TransferError
  | StorageError
  | ParseError
  | RegistryUnavailable
  | UnknownRepository

text \<open>
  Modelled from the spec: the two local tiers of the registry cache, absent from the
  sources: the memory tier, empty at process start, and the disk snapshot.
\<close>

record cache =
  memory :: registry
  disk :: snapshot

text \<open>Modelled from the spec: what a resolution touches, for the call counts of section 8.\<close>

datatype access = DiskRead | DiskWrite | NetworkCall

text \<open>
  Modelled from the spec: the remote tier of \<^verbatim>\<open>get_registry\<close> (section 4.4), absent
  from the sources. A fetch that succeeds populates the memory tier and persists the
  disk snapshot; one that fails leaves both tiers as they were, a call with clobber
  propagating the error unchanged (section 7) and a call that has found the other two
  tiers empty failing with RegistryUnavailable (section 4.4).
\<close>

definition fetch_registry ::
  "registry_error + registry \<Rightarrow> bool \<Rightarrow> cache
     \<Rightarrow> (registry_error + registry) \<times> cache \<times> access list" where
  "fetch_registry remote clobber c =
     (case remote of
        Inl e \<Rightarrow> (Inl (if clobber then e else RegistryUnavailable), c, [NetworkCall])
      | Inr payload \<Rightarrow>
          (Inr payload, \<lparr>memory = payload, disk = Stored payload\<rparr>, [NetworkCall, DiskWrite]))"

text \<open>
  Modelled from the spec: \<^verbatim>\<open>get_registry\<close> (\<^verbatim>\<open>query_repositories\<close> in the tests) of
  section 4.4, absent from the sources. Without clobber: (1) a non-empty memory tier is
  returned; (2) else a disk snapshot that exists is loaded, populates the memory tier
  and is returned, a ParseError propagating unchanged (section 7); (3) else the remote
  is fetched. With clobber the remote is fetched unconditionally. \<open>remote\<close> is what the
  remote endpoint answers at the time of the call.
\<close>

definition get_registry ::
  "registry_error + registry \<Rightarrow> bool \<Rightarrow> cache
     \<Rightarrow> (registry_error + registry) \<times> cache \<times> access list" where
  "get_registry remote clobber c =
     (if clobber then fetch_registry remote clobber c
      else if memory c \<noteq> [] then (Inr (memory c), c, [])
      else
        (case disk c of
           Stored r \<Rightarrow> (Inr r, c\<lparr>memory := r\<rparr>, [DiskRead])
         | Malformed \<Rightarrow> (Inl ParseError, c, [DiskRead])
         | Missing \<Rightarrow> fetch_registry remote clobber c))"

text \<open>
  Modelled from the spec: \<^verbatim>\<open>get_repository\<close> (\<^verbatim>\<open>query_repository\<close> in the tests) of
  section 4.5, absent from the sources: \<^verbatim>\<open>get_registry()\<close> without clobber, then the
  lookup of the name, failing with UnknownRepository if it is absent.
\<close>

definition get_repository ::
  "registry_error + registry \<Rightarrow> string \<Rightarrow> cache
     \<Rightarrow> (registry_error + repository_info) \<times> cache \<times> access list" where
  "get_repository remote name c =
     (case get_registry remote False c of
        (Inl e, c', touched) \<Rightarrow> (Inl e, c', touched)
      | (Inr reg, c', touched) \<Rightarrow>
          (case map_of reg name of
             None \<Rightarrow> (Inl UnknownRepository, c', touched)
           | Some info \<Rightarrow> (Inr info, c', touched)))"

text \<open>
  Modelled from the spec: \<^verbatim>\<open>get_repository_url\<close> (\<^verbatim>\<open>query_repo_url\<close> in the tests) of
  section 4.5, absent from the sources: \<^verbatim>\<open>get_repository(name)\<close>, then its URL field.
\<close>

definition get_repository_url ::
  "registry_error + registry \<Rightarrow> string \<Rightarrow> cache
     \<Rightarrow> (registry_error + string) \<times> cache \<times> access list" where
  "get_repository_url remote name c =
     (case get_repository remote name c of
        (Inl e, c', touched) \<Rightarrow> (Inl e, c', touched)
      | (Inr info, c', touched) \<Rightarrow> (Inr (repo info), c', touched))"

section \<open>Example data\<close>

text \<open>
  The archive of 2015-06-01 used in the examples: two records reachable by request id
  71123549 (the id of the test data), then a record without \<^verbatim>\<open>request_ids\<close>.
\<close>

definition job_a :: json where
  "job_a = JObj [(''builder_id'', JInt 1), (''request_ids'', JList [JInt 71123549])]"

definition job_b :: json where
  "job_b = JObj [(''builder_id'', JInt 2), (''request_ids'', JList [JInt 5, JInt 71123549])]"

definition job_c :: json where
  "job_c = JObj [(''builder_id'', JInt 3), (''request_ids'', JList [JInt 7])]"

definition job_broken :: json where
  "job_broken = JObj [(''builder_id'', JInt 4)]"

definition archive_tidy :: json where
  "archive_tidy = JObj [(''builds'', JList [job_c, job_a, job_b])]"

definition archive_untidy :: json where
  "archive_untidy = JObj [(''builds'', JList [job_c, job_a, job_broken])]"

text \<open>
  A decoder for the example texts: two texts stand for the two archives, any other
  text is not JSON.
\<close>

definition example_loads :: "string \<Rightarrow> json option" where
  "example_loads text =
     (if text = ''tidy'' then Some archive_tidy
      else if text = ''untidy'' then Some archive_untidy
      else None)"

text \<open>Networks: one that cannot be reached, one that answers 404, one that serves.\<close>

definition net_down :: network where
  "net_down u = Inl (RequestException ''connection refused'')"

definition net_404 :: network where
  "net_404 u = Inr (Response 404 ''Not Found'')"

definition net_serving :: "string \<Rightarrow> network" where
  "net_serving body u = Inr (Response 200 body)"

text \<open>
  A zone with daylight saving time: two hours east of UTC between the last Sundays of
  March and October 2015, one hour otherwise.
\<close>

definition dst_zone :: timezone where
  "dst_zone ts = (if 1427590800 \<le> ts \<and> ts < 1445734800 then 7200 else 3600)"

text \<open>The registry of the tests, and the other one they seed the caches with.\<close>

definition registry_remote :: registry where
  "registry_remote =
     [(''repo1'', \<lparr>repo = ''https://hg.mozilla.org/releases/repo1'',
                   graph_branches = [''Repo1''], repo_type = ''hg''\<rparr>),
      (''repo2'', \<lparr>repo = ''https://hg.mozilla.org/projects/repo2'',
                   graph_branches = [''Repo2''], repo_type = ''hg''\<rparr>)]"

definition registry_other :: registry where
  "registry_other = [(''real-repo'', \<lparr>repo = ''repo'', graph_branches = [], repo_type = ''hg''\<rparr>)]"

section \<open>Properties of the job lookup\<close>

lemma matches_has_request_ids: "matches r job \<Longrightarrow> has_request_ids job"
  by (auto simp: matches_def has_request_ids_def split: sum.splits json.splits)

lemma scan_builds_hit: "matches r job \<Longrightarrow> scan_builds r (job # rest) = Inr (Some job)"
  by (auto simp: matches_def split: sum.splits json.splits)

lemma scan_builds_skip:
  "has_request_ids job \<Longrightarrow> \<not> matches r job \<Longrightarrow> scan_builds r (job # rest) = scan_builds r rest"
  by (auto simp: matches_def has_request_ids_def split: sum.splits json.splits)

lemma scan_builds_prefix:
  "list_all (\<lambda>j. has_request_ids j \<and> \<not> matches r j) pre \<Longrightarrow>
   scan_builds r (pre @ rest) = scan_builds r rest"
proof (induction pre)
  case Nil
  show ?case by simp
next
  case (Cons j pre)
  from Cons.prems have j: "has_request_ids j" "\<not> matches r j"
    and pre: "list_all (\<lambda>j. has_request_ids j \<and> \<not> matches r j) pre"
    by simp_all
  have "scan_builds r ((j # pre) @ rest) = scan_builds r (pre @ rest)"
    using scan_builds_skip [OF j] by simp
  with Cons.IH [OF pre] show ?case by simp
qed

lemma scan_builds_find:
  "list_all has_request_ids jobs \<Longrightarrow> scan_builds r jobs = Inr (find (matches r) jobs)"
proof (induction jobs)
  case Nil
  show ?case by simp
next
  case (Cons j jobs)
  from Cons.prems have j: "has_request_ids j" and rest: "list_all has_request_ids jobs"
    by simp_all
  show ?case
  proof (cases "matches r j")
    case True
    then show ?thesis using scan_builds_hit [OF True] by simp
  next
    case False
    then show ?thesis using scan_builds_skip [OF j False] Cons.IH [OF rest] by simp
  qed
qed

lemma query_scans_builds:
  assumes "daily_jobs tz loads net fs claimed_at = (Inr status_data, fs', sent)"
    and "getitem status_data ''builds'' = Inr (JList jobs)"
  shows "query_buildjson_info tz loads net fs (PyInt claimed_at) (PyInt request_id) =
           (scan_builds request_id jobs, fs', sent)"
  using assms by (simp add: query_buildjson_info_def)

lemma find_first:
  "\<not> list_ex P pre \<Longrightarrow> P x \<Longrightarrow> find P (pre @ x # post) = Some x"
  by (induction pre) auto

lemma find_none: "\<not> list_ex P xs \<Longrightarrow> find P xs = None"
  by (induction xs) auto

lemma data_file_2015_06_01:
  "data_file_of (fixed_zone 0) 1433166028 = Inr ''builds-2015-06-01.js''"
  by code_simp

lemma data_file_2015_06_02:
  "data_file_of (fixed_zone 43200) 1433166028 = Inr ''builds-2015-06-02.js''"
  by code_simp

lemma daily_jobs_cached_tidy:
  "daily_jobs (fixed_zone 0) example_loads net [''builds-2015-06-01.js'' \<mapsto> ''tidy''] 1433166028 =
     (Inr archive_tidy, [''builds-2015-06-01.js'' \<mapsto> ''tidy''], [])"
  by (simp add: daily_jobs_def data_file_2015_06_01 json_load_def example_loads_def)

lemma daily_jobs_cached_untidy:
  "daily_jobs (fixed_zone 0) example_loads net [''builds-2015-06-01.js'' \<mapsto> ''untidy''] 1433166028 =
     (Inr archive_untidy, [''builds-2015-06-01.js'' \<mapsto> ''untidy''], [])"
  by (simp add: daily_jobs_def data_file_2015_06_01 json_load_def example_loads_def)

text \<open>
  C1: with the day's archive obtained for \<open>claimed_at\<close> and every record of its
  \<^verbatim>\<open>builds\<close> list carrying a \<^verbatim>\<open>request_ids\<close> list, \<^verbatim>\<open>query_buildjson_info\<close> returns
  the first record in file order whose \<^verbatim>\<open>request_ids\<close> contains the request id; it
  returns \<^verbatim>\<open>None\<close>, not an error, when no record matches; and of two records sharing
  the id the earlier one is returned.
\<close>

theorem find_job_first_match:
  assumes day: "daily_jobs tz loads net fs claimed_at = (Inr status_data, fs', sent)"
    and builds: "getitem status_data ''builds'' = Inr (JList jobs)"
    and records: "list_all has_request_ids jobs"
  shows "query_buildjson_info tz loads net fs (PyInt claimed_at) (PyInt request_id) =
           (Inr (find (matches request_id) jobs), fs', sent)
         \<and> (\<not> list_ex (matches request_id) jobs \<longrightarrow>
              query_buildjson_info tz loads net fs (PyInt claimed_at) (PyInt request_id) =
                (Inr None, fs', sent))
         \<and> (\<forall>pre job post.
              jobs = pre @ job # post \<and> \<not> list_ex (matches request_id) pre
                \<and> matches request_id job \<longrightarrow>
              query_buildjson_info tz loads net fs (PyInt claimed_at) (PyInt request_id) =
                (Inr (Some job), fs', sent))"
proof -
  have q: "query_buildjson_info tz loads net fs (PyInt claimed_at) (PyInt request_id) =
             (Inr (find (matches request_id) jobs), fs', sent)"
    using query_scans_builds [OF day builds] scan_builds_find [OF records] by simp
  show ?thesis
    using q by (auto simp: find_first find_none)
qed

theorem find_job_first_match_witness:
  "query_buildjson_info (fixed_zone 0) example_loads net_down
      [''builds-2015-06-01.js'' \<mapsto> ''tidy''] (PyInt 1433166028) (PyInt 71123549) =
     (Inr (Some job_a), [''builds-2015-06-01.js'' \<mapsto> ''tidy''], [])
   \<and> query_buildjson_info (fixed_zone 0) example_loads net_down
      [''builds-2015-06-01.js'' \<mapsto> ''tidy''] (PyInt 1433166028) (PyInt 999) =
     (Inr None, [''builds-2015-06-01.js'' \<mapsto> ''tidy''], [])"
proof -
  have builds: "getitem archive_tidy ''builds'' = Inr (JList [job_c, job_a, job_b])"
    by (simp add: archive_tidy_def)
  have records: "list_all has_request_ids [job_c, job_a, job_b]"
    by (simp add: job_a_def job_b_def job_c_def has_request_ids_def matches_def)
  have hit: "find (matches 71123549) [job_c, job_a, job_b] = Some job_a"
    by (simp add: job_a_def job_b_def job_c_def has_request_ids_def matches_def)
  have miss: "find (matches 999) [job_c, job_a, job_b] = None"
    by (simp add: job_a_def job_b_def job_c_def has_request_ids_def matches_def)
  show ?thesis
    using find_job_first_match [OF daily_jobs_cached_tidy builds records, of net_down 71123549]
      find_job_first_match [OF daily_jobs_cached_tidy builds records, of net_down 999]
    by (simp only: hit miss)
qed

text \<open>
  C9: \<^verbatim>\<open>query_buildjson_info\<close> asserts the exact type \<^verbatim>\<open>int\<close> of both arguments:
  when either is anything else (a float, a string, a bool, a long), the call fails with
  AssertionError before any lookup: no file is touched, no request is sent, and the
  argument is not coerced.
\<close>

theorem find_job_rejects_non_int:
  "\<not> type_is_int claimed_at \<or> \<not> type_is_int request_id \<Longrightarrow>
   query_buildjson_info tz loads net fs claimed_at request_id = (Inl AssertionError, fs, [])"
  by (auto simp: query_buildjson_info_def)

theorem find_job_rejects_non_int_witness:
  "query_buildjson_info (fixed_zone 0) example_loads (net_serving ''tidy'') Map.empty
      (PyFloat (Finite 1433166028 0)) (PyInt 71123549) = (Inl AssertionError, Map.empty, [])
   \<and> query_buildjson_info (fixed_zone 0) example_loads (net_serving ''tidy'') Map.empty
      (PyInt 1433166028) (PyBool True) = (Inl AssertionError, Map.empty, [])
   \<and> query_buildjson_info (fixed_zone 0) example_loads (net_serving ''tidy'') Map.empty
      (PyInt 1433166028) (PyStr ''71123549'') = (Inl AssertionError, Map.empty, [])"
  using find_job_rejects_non_int [of "PyFloat (Finite 1433166028 0)" "PyInt 71123549"
      "fixed_zone 0" example_loads "net_serving ''tidy''" Map.empty]
    find_job_rejects_non_int [of "PyInt 1433166028" "PyBool True"
      "fixed_zone 0" example_loads "net_serving ''tidy''" Map.empty]
    find_job_rejects_non_int [of "PyInt 1433166028" "PyStr ''71123549''"
      "fixed_zone 0" example_loads "net_serving ''tidy''" Map.empty]
  by simp

text \<open>
  C10: the scan stops at the first match. When the records before the first record
  matching the request id, and that record, each carry a \<^verbatim>\<open>request_ids\<close> list,
  \<^verbatim>\<open>query_buildjson_info\<close> returns that record whatever follows it: a later record
  without the \<^verbatim>\<open>request_ids\<close> key is never read and causes no failure.
\<close>

theorem find_job_short_circuits:
  assumes day: "daily_jobs tz loads net fs claimed_at = (Inr status_data, fs', sent)"
    and builds: "getitem status_data ''builds'' = Inr (JList (pre @ job # post))"
    and before: "list_all (\<lambda>j. has_request_ids j \<and> \<not> matches request_id j) pre"
    and match: "matches request_id job"
  shows "query_buildjson_info tz loads net fs (PyInt claimed_at) (PyInt request_id) =
           (Inr (Some job), fs', sent)"
proof -
  have "scan_builds request_id (pre @ job # post) = scan_builds request_id (job # post)"
    using scan_builds_prefix [OF before] .
  also have "\<dots> = Inr (Some job)"
    using scan_builds_hit [OF match] .
  finally show ?thesis
    using query_scans_builds [OF day builds] by simp
qed

theorem find_job_short_circuits_witness:
  "\<not> has_request_ids job_broken
   \<and> scan_builds 71123549 [job_broken] = Inl (KeyError ''request_ids'')
   \<and> query_buildjson_info (fixed_zone 0) example_loads net_down
      [''builds-2015-06-01.js'' \<mapsto> ''untidy''] (PyInt 1433166028) (PyInt 71123549) =
     (Inr (Some job_a), [''builds-2015-06-01.js'' \<mapsto> ''untidy''], [])"
proof -
  have builds: "getitem archive_untidy ''builds'' = Inr (JList ([job_c] @ job_a # [job_broken]))"
    by (simp add: archive_untidy_def)
  have before: "list_all (\<lambda>j. has_request_ids j \<and> \<not> matches 71123549 j) [job_c]"
    by (simp add: job_c_def has_request_ids_def matches_def)
  have match: "matches 71123549 job_a"
    by (simp add: job_a_def matches_def)
  have broken: "\<not> has_request_ids job_broken"
    "scan_builds 71123549 [job_broken] = Inl (KeyError ''request_ids'')"
    by (simp_all add: job_broken_def has_request_ids_def)
  show ?thesis
    using find_job_short_circuits [OF daily_jobs_cached_untidy builds before match, of net_down]
      broken
    by simp
qed

section \<open>Properties of the archive cache\<close>

lemma write_chunks_from:
  "foldl (\<lambda>written chunk. written @ chunk) acc (iter_content n body) =
     (if n = 0 then acc else acc @ body)"
proof (induction n body arbitrary: acc rule: iter_content.induct)
  case (1 chunk_size body)
  show ?case
  proof (cases "chunk_size = 0 \<or> body = []")
    case True
    then show ?thesis by (subst iter_content.simps) auto
  next
    case False
    have "foldl (\<lambda>written chunk. written @ chunk) acc (iter_content chunk_size body) =
          foldl (\<lambda>written chunk. written @ chunk) (acc @ take chunk_size body)
            (iter_content chunk_size (drop chunk_size body))"
      using False by (subst iter_content.simps) simp
    also have "\<dots> = (acc @ take chunk_size body) @ drop chunk_size body"
      using "1.IH" [OF False] False by simp
    finally show ?thesis using False by simp
  qed
qed

lemma write_chunks_iter_content: "write_chunks (iter_content 1024 body) = body"
  by (simp add: write_chunks_def write_chunks_from del: iter_content.simps)

lemma daily_jobs_undated:
  "data_file_of tz ts = Inl e \<Longrightarrow> daily_jobs tz loads net fs ts = (Inl e, fs, [])"
  by (simp add: daily_jobs_def)

lemma daily_jobs_cached:
  "data_file_of tz ts = Inr f \<Longrightarrow> fs f \<noteq> None \<Longrightarrow>
   daily_jobs tz loads net fs ts = (json_load loads fs f, fs, [])"
  by (auto simp: daily_jobs_def)

lemma daily_jobs_refused:
  "data_file_of tz ts = Inr f \<Longrightarrow> fs f = None \<Longrightarrow> net (url_of f) = Inl e \<Longrightarrow>
   daily_jobs tz loads net fs ts = (Inl e, fs, [Fetch (url_of f) False])"
  by (simp add: daily_jobs_def)

lemma daily_jobs_fetched:
  "data_file_of tz ts = Inr f \<Longrightarrow> fs f = None \<Longrightarrow> net (url_of f) = Inr r \<Longrightarrow>
   daily_jobs tz loads net fs ts =
     (json_load loads (fs(f \<mapsto> content r)) f, fs(f \<mapsto> content r), [Fetch (url_of f) True])"
  by (simp add: daily_jobs_def write_chunks_iter_content Let_def del: iter_content.simps)

lemma url_of_inject: "url_of f = url_of g \<longleftrightarrow> f = g"
  by (simp add: url_of_def)

text \<open>What one call sends and leaves, whatever it returns.\<close>

lemma daily_jobs_effect:
  "(snd (daily_jobs tz loads net fs ts) = (fs, []))
   \<or> (\<exists>g. data_file_of tz ts = Inr g \<and> fs g = None
         \<and> (snd (daily_jobs tz loads net fs ts) = (fs, [Fetch (url_of g) False])
            \<or> (\<exists>body. snd (daily_jobs tz loads net fs ts) =
                  (fs(g \<mapsto> body), [Fetch (url_of g) True]))))"
proof (cases "data_file_of tz ts")
  case (Inl e)
  then show ?thesis by (simp add: daily_jobs_undated)
next
  case (Inr g)
  show ?thesis
  proof (cases "fs g")
    case (Some stored)
    then show ?thesis using Inr by (simp add: daily_jobs_cached)
  next
    case None
    show ?thesis
    proof (cases "net (url_of g)")
      case (Inl e)
      then show ?thesis using Inr None by (simp add: daily_jobs_refused)
    next
      case (Inr r)
      then show ?thesis using \<open>data_file_of tz ts = Inr g\<close> None
        by (auto simp: daily_jobs_fetched)
    qed
  qed
qed

lemma daily_jobs_keeps_file:
  assumes "fs f \<noteq> None"
  shows "fst (snd (daily_jobs tz loads net fs ts)) f \<noteq> None
         \<and> Fetch (url_of f) b \<notin> set (snd (snd (daily_jobs tz loads net fs ts)))"
  using daily_jobs_effect [of tz loads net fs ts] assms
  by (auto simp: url_of_inject)

lemma daily_jobs_calls_keep_file:
  "fs f \<noteq> None \<Longrightarrow>
   Fetch (url_of f) b \<notin> set (snd (snd (daily_jobs_calls tz loads fs calls)))"
proof (induction calls arbitrary: fs)
  case Nil
  show ?case by simp
next
  case (Cons c calls)
  obtain r fs1 sent1 where one: "daily_jobs tz loads (fst c) fs (snd c) = (r, fs1, sent1)"
    by (cases "daily_jobs tz loads (fst c) fs (snd c)") auto
  obtain rs fs2 sent2 where rest: "daily_jobs_calls tz loads fs1 calls = (rs, fs2, sent2)"
    by (cases "daily_jobs_calls tz loads fs1 calls") auto
  from daily_jobs_keeps_file [where fs = fs and f = f and b = b, of tz loads "fst c" "snd c"]
    Cons.prems one
  have kept: "fs1 f \<noteq> None" and quiet: "Fetch (url_of f) b \<notin> set sent1"
    by simp_all
  from Cons.IH [of fs1] kept rest have "Fetch (url_of f) b \<notin> set sent2"
    by simp
  with quiet one rest show ?case by simp
qed

lemma daily_jobs_calls_cached:
  "fs f \<noteq> None \<Longrightarrow> list_all (\<lambda>c. data_file_of tz (snd c) = Inr f) calls \<Longrightarrow>
   daily_jobs_calls tz loads fs calls = (replicate (length calls) (json_load loads fs f), fs, [])"
proof (induction calls)
  case Nil
  show ?case by simp
next
  case (Cons c calls)
  from Cons.prems have c: "data_file_of tz (snd c) = Inr f"
    and cs: "list_all (\<lambda>c. data_file_of tz (snd c) = Inr f) calls"
    by simp_all
  have one: "daily_jobs tz loads (fst c) fs (snd c) = (json_load loads fs f, fs, [])"
    using daily_jobs_cached [where fs = fs and f = f, of tz "snd c" loads "fst c"] c Cons.prems(1)
    by simp
  show ?case
    using one Cons.IH Cons.prems(1) cs by simp
qed

lemma daily_jobs_calls_fetch_once:
  "length (filter (\<lambda>e. e = Fetch (url_of f) True)
     (snd (snd (daily_jobs_calls tz loads fs calls)))) \<le> 1"
proof (induction calls arbitrary: fs)
  case Nil
  show ?case by simp
next
  case (Cons c calls)
  obtain r fs1 sent1 where one: "daily_jobs tz loads (fst c) fs (snd c) = (r, fs1, sent1)"
    by (cases "daily_jobs tz loads (fst c) fs (snd c)") auto
  obtain rs fs2 sent2 where rest: "daily_jobs_calls tz loads fs1 calls = (rs, fs2, sent2)"
    by (cases "daily_jobs_calls tz loads fs1 calls") auto
  have all: "snd (snd (daily_jobs_calls tz loads fs (c # calls))) = sent1 @ sent2"
    using one rest by simp
  have ih: "length (filter (\<lambda>e. e = Fetch (url_of f) True) sent2) \<le> 1"
    using Cons.IH [of fs1] rest by simp
  show ?case
  proof (cases "Fetch (url_of f) True \<in> set sent1")
    case False
    then have "filter (\<lambda>e. e = Fetch (url_of f) True) sent1 = []"
      by (auto simp: filter_empty_conv)
    with ih all show ?thesis by simp
  next
    case True
    with daily_jobs_effect [of tz loads "fst c" fs "snd c"] one
    obtain body where sent1: "sent1 = [Fetch (url_of f) True]" and fs1: "fs1 = fs(f \<mapsto> body)"
      by (auto simp: url_of_inject)
    have "fs1 f \<noteq> None" using fs1 by simp
    with daily_jobs_calls_keep_file [where fs = fs1 and f = f and b = True, of tz loads calls] rest
    have "filter (\<lambda>e. e = Fetch (url_of f) True) sent2 = []"
      by (auto simp: filter_empty_conv)
    with sent1 all show ?thesis by simp
  qed
qed

lemma data_file_midnight:
  "data_file_of (fixed_zone 0) 1433116800 = Inr ''builds-2015-06-01.js''"
  by code_simp

lemma data_file_last_second:
  "data_file_of (fixed_zone 0) 1433203199 = Inr ''builds-2015-06-01.js''"
  by code_simp

lemma data_file_two_hours_east:
  "data_file_of (fixed_zone 7200) 1433166028 = Inr ''builds-2015-06-01.js''"
  by code_simp

lemma json_load_examples:
  "json_load example_loads (fs(f \<mapsto> ''tidy'')) f = Inr archive_tidy"
  "json_load example_loads (fs(f \<mapsto> ''untidy'')) f = Inr archive_untidy"
  "json_load example_loads (fs(f \<mapsto> ''Not Found'')) f = Inl ValueError"
  by (simp_all add: json_load_def example_loads_def)

text \<open>
  C4: once the local file \<^verbatim>\<open>builds-<date>.js\<close> exists, every call of \<^verbatim>\<open>_daily_jobs\<close>
  for a timestamp of that date parses and returns the local file, leaves the directory
  as it is and sends no request, so repeated calls return the same content; in any
  sequence of calls no request for the date is sent from then on, and at most one
  request for the date is ever answered, the one whose body becomes the local file; the
  call that fetches and the calls after it return the same content.
\<close>

theorem archive_fetched_once:
  "(data_file_of tz ts = Inr f \<and> fs f \<noteq> None \<longrightarrow>
      daily_jobs tz loads net fs ts = (json_load loads fs f, fs, []))
   \<and> (fs f \<noteq> None \<and> list_all (\<lambda>c. data_file_of tz (snd c) = Inr f) calls \<longrightarrow>
      daily_jobs_calls tz loads fs calls =
        (replicate (length calls) (json_load loads fs f), fs, []))
   \<and> (fs f \<noteq> None \<longrightarrow>
      Fetch (url_of f) b \<notin> set (snd (snd (daily_jobs_calls tz loads fs others))))
   \<and> length (filter (\<lambda>e. e = Fetch (url_of f) True)
        (snd (snd (daily_jobs_calls tz loads fs others)))) \<le> 1
   \<and> (data_file_of tz ts = Inr f \<and> data_file_of tz ts' = Inr f \<and> fs f = None
        \<and> net (url_of f) = Inr r \<longrightarrow>
      daily_jobs_calls tz loads fs [(net, ts), (net', ts')] =
        ([json_load loads (fs(f \<mapsto> content r)) f, json_load loads (fs(f \<mapsto> content r)) f],
         fs(f \<mapsto> content r), [Fetch (url_of f) True]))"
proof -
  have twice: "daily_jobs_calls tz loads fs [(net, ts), (net', ts')] =
        ([json_load loads (fs(f \<mapsto> content r)) f, json_load loads (fs(f \<mapsto> content r)) f],
         fs(f \<mapsto> content r), [Fetch (url_of f) True])"
    if "data_file_of tz ts = Inr f" "data_file_of tz ts' = Inr f" "fs f = None"
      "net (url_of f) = Inr r"
  proof -
    have first: "daily_jobs tz loads net fs ts =
        (json_load loads (fs(f \<mapsto> content r)) f, fs(f \<mapsto> content r), [Fetch (url_of f) True])"
      using that by (simp add: daily_jobs_fetched)
    have second: "daily_jobs tz loads net' (fs(f \<mapsto> content r)) ts' =
        (json_load loads (fs(f \<mapsto> content r)) f, fs(f \<mapsto> content r), [])"
      using that by (simp add: daily_jobs_cached)
    show ?thesis using first second by simp
  qed
  have cached: "daily_jobs tz loads net fs ts = (json_load loads fs f, fs, [])"
    if "data_file_of tz ts = Inr f" "fs f \<noteq> None"
    using that by (simp add: daily_jobs_cached)
  have repeated: "daily_jobs_calls tz loads fs calls =
      (replicate (length calls) (json_load loads fs f), fs, [])"
    if "fs f \<noteq> None" "list_all (\<lambda>c. data_file_of tz (snd c) = Inr f) calls"
    using that by (rule daily_jobs_calls_cached)
  have quiet: "Fetch (url_of f) b \<notin> set (snd (snd (daily_jobs_calls tz loads fs others)))"
    if "fs f \<noteq> None"
    using that by (rule daily_jobs_calls_keep_file)
  have once: "length (filter (\<lambda>e. e = Fetch (url_of f) True)
      (snd (snd (daily_jobs_calls tz loads fs others)))) \<le> 1"
    by (rule daily_jobs_calls_fetch_once)
  show ?thesis
    using cached repeated quiet once twice by blast
qed

theorem archive_fetched_once_witness:
  "daily_jobs (fixed_zone 0) example_loads (net_serving ''untidy'')
      [''builds-2015-06-01.js'' \<mapsto> ''tidy''] 1433203199 =
     (Inr archive_tidy, [''builds-2015-06-01.js'' \<mapsto> ''tidy''], [])
   \<and> daily_jobs_calls (fixed_zone 0) example_loads [''builds-2015-06-01.js'' \<mapsto> ''tidy'']
      [(net_down, 1433116800), (net_serving ''untidy'', 1433203199)] =
     ([Inr archive_tidy, Inr archive_tidy], [''builds-2015-06-01.js'' \<mapsto> ''tidy''], [])
   \<and> Fetch (url_of ''builds-2015-06-01.js'') True \<notin> set (snd (snd (daily_jobs_calls
        (fixed_zone 0) example_loads [''builds-2015-06-01.js'' \<mapsto> ''tidy'']
        [(net_serving ''untidy'', 1433166028), (net_404, 1433116800)])))
   \<and> length (filter (\<lambda>e. e = Fetch (url_of ''builds-2015-06-01.js'') True)
        (snd (snd (daily_jobs_calls (fixed_zone 0) example_loads Map.empty
          [(net_down, 1433116800), (net_serving ''tidy'', 1433166028),
           (net_serving ''untidy'', 1433203199)])))) \<le> 1
   \<and> daily_jobs_calls (fixed_zone 0) example_loads Map.empty
      [(net_serving ''tidy'', 1433166028), (net_serving ''untidy'', 1433116800)] =
     ([Inr archive_tidy, Inr archive_tidy], [''builds-2015-06-01.js'' \<mapsto> ''tidy''],
      [Fetch (url_of ''builds-2015-06-01.js'') True])"
proof -
  let ?f = "''builds-2015-06-01.js''"
  let ?kept = "[?f \<mapsto> ''tidy'']"
  have present: "?kept ?f \<noteq> None"
    by simp
  have same_day: "list_all (\<lambda>c. data_file_of (fixed_zone 0) (snd c) = Inr ?f)
      [(net_down, 1433116800), (net_serving ''untidy'', 1433203199)]"
    by (simp add: data_file_midnight data_file_last_second)
  have served: "net_serving ''tidy'' (url_of ?f) = Inr (Response 200 ''tidy'')"
    by (simp add: net_serving_def)
  note cached = archive_fetched_once [where tz = "fixed_zone 0" and ts = 1433203199
      and f = ?f and fs = ?kept and loads = example_loads and net = "net_serving ''untidy''"
      and calls = "[(net_down, 1433116800), (net_serving ''untidy'', 1433203199)]"
      and others = "[(net_serving ''untidy'', 1433166028), (net_404, 1433116800)]"
      and b = True]
  note fresh = archive_fetched_once [where tz = "fixed_zone 0" and ts = 1433166028
      and ts' = 1433116800 and f = ?f and fs = Map.empty and loads = example_loads
      and net = "net_serving ''tidy''" and net' = "net_serving ''untidy''"
      and r = "Response 200 ''tidy''" and calls = "[]"
      and others = "[(net_down, 1433116800), (net_serving ''tidy'', 1433166028),
           (net_serving ''untidy'', 1433203199)]"]
  have one: "daily_jobs (fixed_zone 0) example_loads (net_serving ''untidy'') ?kept 1433203199 =
      (json_load example_loads ?kept ?f, ?kept, [])"
    using cached data_file_last_second present by blast
  have many: "daily_jobs_calls (fixed_zone 0) example_loads ?kept
      [(net_down, 1433116800), (net_serving ''untidy'', 1433203199)] =
      (replicate (length [(net_down, 1433116800::int), (net_serving ''untidy'', 1433203199)])
         (json_load example_loads ?kept ?f), ?kept, [])"
    using cached same_day present by blast
  have quiet: "Fetch (url_of ?f) True \<notin> set (snd (snd (daily_jobs_calls
        (fixed_zone 0) example_loads ?kept
        [(net_serving ''untidy'', 1433166028), (net_404, 1433116800)])))"
    using cached present by blast
  have once: "length (filter (\<lambda>e. e = Fetch (url_of ?f) True)
        (snd (snd (daily_jobs_calls (fixed_zone 0) example_loads Map.empty
          [(net_down, 1433116800), (net_serving ''tidy'', 1433166028),
           (net_serving ''untidy'', 1433203199)])))) \<le> 1"
    using fresh by blast
  have absent: "(Map.empty :: files) ?f = None"
    by simp
  have twice: "daily_jobs_calls (fixed_zone 0) example_loads Map.empty
      [(net_serving ''tidy'', 1433166028), (net_serving ''untidy'', 1433116800)] =
      ([json_load example_loads (Map.empty(?f \<mapsto> content (Response 200 ''tidy''))) ?f,
        json_load example_loads (Map.empty(?f \<mapsto> content (Response 200 ''tidy''))) ?f],
       Map.empty(?f \<mapsto> content (Response 200 ''tidy'')), [Fetch (url_of ?f) True])"
    using fresh data_file_2015_06_01 data_file_midnight absent served by blast
  have loaded: "json_load example_loads ?kept ?f = Inr archive_tidy"
    by (rule json_load_examples)
  show ?thesis
    using one many quiet once twice loaded by simp
qed

text \<open>
  C5 fails as stated: the conversion of line 26 is \<^verbatim>\<open>datetime.fromtimestamp\<close>, which
  uses the local zone of the host. The timestamp of the test data falls on 2015-06-01
  on a host at UTC and on 2015-06-02 on a host twelve hours east of it, so the two hosts
  look for different files.
\<close>

theorem day_differs_between_host_zones:
  "data_file_of (fixed_zone 0) 1433166028 = Inr ''builds-2015-06-01.js''
   \<and> data_file_of (fixed_zone 43200) 1433166028 = Inr ''builds-2015-06-02.js''
   \<and> data_file_of (fixed_zone 0) 1433166028 \<noteq> data_file_of (fixed_zone 43200) 1433166028"
  by (simp add: data_file_2015_06_01 data_file_2015_06_02)

text \<open>
  C5 as amended: \<^verbatim>\<open>_daily_jobs\<close> derives the calendar day in the local zone of the
  host: the date is the UTC date of the timestamp moved by the host's offset from UTC at
  that instant. Two runs with the same timestamp on hosts whose offsets at that instant
  agree yield the same date string, the same local file name and remote locator, and
  the same outcome.
\<close>

theorem day_in_host_zone:
  "date_of tz ts = date_of (fixed_zone 0) (ts + tz ts)
   \<and> (tz ts = tz' ts \<longrightarrow>
        date_of tz ts = date_of tz' ts
        \<and> data_file_of tz ts = data_file_of tz' ts
        \<and> map_sum id url_of (data_file_of tz ts) = map_sum id url_of (data_file_of tz' ts)
        \<and> daily_jobs tz loads net fs ts = daily_jobs tz' loads net fs ts)"
  by (simp add: daily_jobs_def data_file_of_def date_of_def fromtimestamp_def fixed_zone_def)

theorem day_in_host_zone_witness:
  "dst_zone 1433166028 = fixed_zone 7200 1433166028
   \<and> data_file_of (fixed_zone 7200) 1433166028 = Inr ''builds-2015-06-01.js''
   \<and> date_of dst_zone 1433166028 = date_of (fixed_zone 7200) 1433166028
   \<and> daily_jobs dst_zone example_loads net_down Map.empty 1433166028 =
       daily_jobs (fixed_zone 7200) example_loads net_down Map.empty 1433166028"
proof -
  have agree: "dst_zone 1433166028 = fixed_zone 7200 1433166028"
    by (simp add: dst_zone_def fixed_zone_def)
  have "date_of dst_zone 1433166028 = date_of (fixed_zone 7200) 1433166028
    \<and> daily_jobs dst_zone example_loads net_down Map.empty 1433166028 =
       daily_jobs (fixed_zone 7200) example_loads net_down Map.empty 1433166028"
    using day_in_host_zone [of dst_zone 1433166028 "fixed_zone 7200" example_loads net_down
        Map.empty] agree
    by blast
  then show ?thesis
    using agree data_file_two_hours_east by blast
qed

text \<open>
  The failure path the code does handle: when \<^verbatim>\<open>requests.get\<close> raises, the call fails
  with that exception, unchanged, the directory is as it was, without a local file for
  the date, and the next call for the date sends the request again.
\<close>

lemma daily_jobs_request_raises:
  assumes name: "data_file_of tz ts = Inr f"
    and absent: "fs f = None"
    and raised: "net (url_of f) = Inl e"
  shows "daily_jobs tz loads net fs ts = (Inl e, fs, [Fetch (url_of f) False])
         \<and> map url (snd (snd (daily_jobs tz loads net'
              (fst (snd (daily_jobs tz loads net fs ts))) ts))) = [url_of f]"
proof -
  have first: "daily_jobs tz loads net fs ts = (Inl e, fs, [Fetch (url_of f) False])"
    using daily_jobs_refused [where fs = fs and f = f, of tz ts net e loads] assms by simp
  have again: "map url (snd (snd (daily_jobs tz loads net' fs ts))) = [url_of f]"
  proof (cases "net' (url_of f)")
    case (Inl e')
    then show ?thesis
      using daily_jobs_refused [where fs = fs and f = f, of tz ts net' e' loads] name absent
      by simp
  next
    case (Inr r)
    then show ?thesis
      using daily_jobs_fetched [where fs = fs and f = f, of tz ts net' r loads] name absent
      by simp
  qed
  show ?thesis using first again by simp
qed

text \<open>
  C6: a failed remote fetch must fail the call and leave no cached local file, so that
  the next call for the date fetches again. The code does so when \<^verbatim>\<open>requests.get\<close>
  raises, and misses the non-success HTTP status: on an empty directory, with a remote
  answering 404 with the body \<^verbatim>\<open>Not Found\<close>, the call for timestamp 1433166028 stores
  that body as \<^verbatim>\<open>builds-2015-06-01.js\<close> and fails in \<^verbatim>\<open>json.load\<close> with ValueError,
  and the next call for the date sends no request and fails on the stored file, also
  when the remote now serves the archive.
\<close>

theorem failed_status_is_cached:
  "daily_jobs (fixed_zone 0) example_loads net_404 Map.empty 1433166028 =
     (Inl ValueError, [''builds-2015-06-01.js'' \<mapsto> ''Not Found''],
      [Fetch (url_of ''builds-2015-06-01.js'') True])
   \<and> daily_jobs (fixed_zone 0) example_loads (net_serving ''tidy'')
       [''builds-2015-06-01.js'' \<mapsto> ''Not Found''] 1433166028 =
     (Inl ValueError, [''builds-2015-06-01.js'' \<mapsto> ''Not Found''], [])"
proof -
  have "net_404 (url_of ''builds-2015-06-01.js'') = Inr (Response 404 ''Not Found'')"
    by (simp add: net_404_def)
  then show ?thesis
    using daily_jobs_fetched [where tz = "fixed_zone 0" and ts = 1433166028
        and f = "''builds-2015-06-01.js''" and fs = Map.empty and net = net_404
        and r = "Response 404 ''Not Found''" and loads = example_loads]
      daily_jobs_cached [where tz = "fixed_zone 0" and ts = 1433166028
        and f = "''builds-2015-06-01.js''" and fs = "[''builds-2015-06-01.js'' \<mapsto> ''Not Found'']"
        and net = "net_serving ''tidy''" and loads = example_loads]
    by (simp add: data_file_2015_06_01 json_load_examples)
qed

section \<open>Properties of the registry cache\<close>

lemma get_registry_clobber:
  "get_registry (Inr payload) True c =
     (Inr payload, \<lparr>memory = payload, disk = Stored payload\<rparr>, [NetworkCall, DiskWrite])"
  by (simp add: get_registry_def fetch_registry_def)

lemma get_registry_memory:
  "memory c \<noteq> [] \<Longrightarrow> get_registry remote False c = (Inr (memory c), c, [])"
  by (simp add: get_registry_def)

lemma get_registry_disk:
  "memory c = [] \<Longrightarrow> disk c = Stored r \<Longrightarrow>
   get_registry remote False c = (Inr r, c\<lparr>memory := r\<rparr>, [DiskRead])"
  by (simp add: get_registry_def)

lemma get_registry_network:
  "NetworkCall \<in> set (snd (snd (get_registry remote clobber c))) \<longleftrightarrow>
     clobber \<or> (memory c = [] \<and> disk c = Missing)"
  by (auto simp: get_registry_def fetch_registry_def split: snapshot.splits sum.splits)

lemma get_registry_success:
  assumes "get_registry remote clobber c = (Inr reg, c', touched)"
  shows "memory c' = reg"
    and "NetworkCall \<in> set touched \<Longrightarrow> disk c' = Stored reg \<and> DiskWrite \<in> set touched"
  using assms
  by (auto simp: get_registry_def fetch_registry_def split: if_splits snapshot.splits sum.splits)

text \<open>
  C2: with clobber, and a remote that delivers its payload, \<^verbatim>\<open>get_registry\<close> issues a
  remote fetch whatever the memory tier and the disk snapshot hold, reads neither,
  overwrites both with the remote payload and returns the remote payload.
\<close>

theorem clobber_fetches_remote:
  "get_registry (Inr payload) True c =
     (Inr payload, \<lparr>memory = payload, disk = Stored payload\<rparr>, [NetworkCall, DiskWrite])
   \<and> fst (get_registry (Inr payload) True c) = Inr payload
   \<and> memory (fst (snd (get_registry (Inr payload) True c))) = payload
   \<and> disk (fst (snd (get_registry (Inr payload) True c))) = Stored payload
   \<and> NetworkCall \<in> set (snd (snd (get_registry (Inr payload) True c)))
   \<and> DiskRead \<notin> set (snd (snd (get_registry (Inr payload) True c)))"
  by (simp add: get_registry_clobber)

theorem clobber_fetches_remote_witness:
  "get_registry (Inr registry_remote) True \<lparr>memory = registry_other, disk = Stored registry_other\<rparr> =
     (Inr registry_remote, \<lparr>memory = registry_remote, disk = Stored registry_remote\<rparr>,
      [NetworkCall, DiskWrite])
   \<and> registry_other \<noteq> registry_remote"
proof -
  have "registry_other \<noteq> registry_remote"
    by (simp add: registry_other_def registry_remote_def)
  then show ?thesis
    using clobber_fetches_remote [of registry_remote
        "\<lparr>memory = registry_other, disk = Stored registry_other\<rparr>"]
    by simp
qed

text \<open>
  C3: without clobber, a non-empty memory tier is returned with no disk read and no
  network call; otherwise a disk snapshot that exists is loaded and returned (and put in
  the memory tier) with no network call; and the remote is fetched only when the memory
  tier is empty and the disk snapshot is absent.
\<close>

theorem tiers_in_order:
  "(memory c \<noteq> [] \<longrightarrow> get_registry remote False c = (Inr (memory c), c, []))
   \<and> (memory c = [] \<and> disk c = Stored r \<longrightarrow>
        get_registry remote False c = (Inr r, c\<lparr>memory := r\<rparr>, [DiskRead]))
   \<and> (memory c = [] \<and> disk c \<noteq> Missing \<longrightarrow>
        NetworkCall \<notin> set (snd (snd (get_registry remote False c))))
   \<and> (NetworkCall \<in> set (snd (snd (get_registry remote False c))) \<longleftrightarrow>
        memory c = [] \<and> disk c = Missing)"
  by (simp add: get_registry_memory get_registry_disk get_registry_network)

theorem tiers_in_order_witness:
  "get_registry (Inr registry_remote) False \<lparr>memory = registry_other, disk = Missing\<rparr> =
     (Inr registry_other, \<lparr>memory = registry_other, disk = Missing\<rparr>, [])
   \<and> get_registry (Inr registry_remote) False \<lparr>memory = [], disk = Stored registry_other\<rparr> =
     (Inr registry_other, \<lparr>memory = registry_other, disk = Stored registry_other\<rparr>, [DiskRead])
   \<and> NetworkCall \<in> set (snd (snd (get_registry (Inr registry_remote) False
        \<lparr>memory = [], disk = Missing\<rparr>)))"
  using tiers_in_order [of "\<lparr>memory = registry_other, disk = Missing\<rparr>" "Inr registry_remote"]
    tiers_in_order [of "\<lparr>memory = [], disk = Stored registry_other\<rparr>" "Inr registry_remote"
      registry_other]
    tiers_in_order [of "\<lparr>memory = [], disk = Missing\<rparr>" "Inr registry_remote"]
  by (simp add: registry_other_def)

text \<open>
  C7 fails as stated when the registry that was resolved is empty: the memory tier then
  equals it, but an empty memory tier is what \<^verbatim>\<open>get_registry\<close> takes for an unpopulated
  one, so the next call without clobber reads the disk snapshot.
\<close>

theorem empty_registry_not_served_from_memory:
  "get_registry (Inr []) False \<lparr>memory = [], disk = Missing\<rparr> =
     (Inr [], \<lparr>memory = [], disk = Stored []\<rparr>, [NetworkCall, DiskWrite])
   \<and> get_registry (Inr []) False \<lparr>memory = [], disk = Stored []\<rparr> =
     (Inr [], \<lparr>memory = [], disk = Stored []\<rparr>, [DiskRead])"
  by (simp add: get_registry_def fetch_registry_def)

text \<open>
  C7 as amended: after every successful resolution, whichever tier supplied the data,
  the memory tier equals the returned registry; when that registry is not empty, the
  next call without clobber is served from memory without touching disk or network; and
  every remote fetch that succeeds also rewrites the disk snapshot.
\<close>

theorem memory_follows_resolution:
  assumes "get_registry remote clobber c = (Inr reg, c', touched)"
  shows "memory c' = reg
         \<and> (reg \<noteq> [] \<longrightarrow> get_registry remote' False c' = (Inr reg, c', []))
         \<and> (NetworkCall \<in> set touched \<longrightarrow> disk c' = Stored reg \<and> DiskWrite \<in> set touched)"
  using get_registry_success [OF assms] get_registry_memory [of c' remote']
  by simp

theorem memory_follows_resolution_witness:
  "get_registry (Inr registry_remote) False \<lparr>memory = [], disk = Missing\<rparr> =
     (Inr registry_remote, \<lparr>memory = registry_remote, disk = Stored registry_remote\<rparr>,
      [NetworkCall, DiskWrite])
   \<and> get_registry (Inl TransferError) False
       \<lparr>memory = registry_remote, disk = Stored registry_remote\<rparr> =
     (Inr registry_remote, \<lparr>memory = registry_remote, disk = Stored registry_remote\<rparr>, [])"
proof -
  have fetched: "get_registry (Inr registry_remote) False \<lparr>memory = [], disk = Missing\<rparr> =
      (Inr registry_remote, \<lparr>memory = registry_remote, disk = Stored registry_remote\<rparr>,
       [NetworkCall, DiskWrite])"
    by (simp add: get_registry_def fetch_registry_def)
  have "registry_remote \<noteq> []"
    by (simp add: registry_remote_def)
  then show ?thesis
    using memory_follows_resolution [OF fetched, of "Inl TransferError"] fetched
    by simp
qed

text \<open>
  C8: for a name present in the registry that \<^verbatim>\<open>get_registry\<close> resolves,
  \<^verbatim>\<open>get_repository_url\<close> returns the \<^verbatim>\<open>repo\<close> field of the entry of that name; for a
  name absent from it both \<^verbatim>\<open>get_repository\<close> and \<^verbatim>\<open>get_repository_url\<close> fail with
  UnknownRepository.
\<close>

theorem repository_lookup:
  assumes "get_registry remote False c = (Inr reg, c', touched)"
  shows "(map_of reg name = Some info \<longrightarrow>
            get_repository remote name c = (Inr info, c', touched)
            \<and> get_repository_url remote name c = (Inr (repo info), c', touched))
         \<and> (map_of reg name = None \<longrightarrow>
            get_repository remote name c = (Inl UnknownRepository, c', touched)
            \<and> get_repository_url remote name c = (Inl UnknownRepository, c', touched))"
  using assms by (simp add: get_repository_def get_repository_url_def)

theorem repository_lookup_witness:
  "get_repository_url (Inr registry_remote) ''repo1'' \<lparr>memory = [], disk = Missing\<rparr> =
     (Inr ''https://hg.mozilla.org/releases/repo1'',
      \<lparr>memory = registry_remote, disk = Stored registry_remote\<rparr>, [NetworkCall, DiskWrite])
   \<and> get_repository (Inr registry_remote) ''not-a-repo'' \<lparr>memory = [], disk = Missing\<rparr> =
     (Inl UnknownRepository,
      \<lparr>memory = registry_remote, disk = Stored registry_remote\<rparr>, [NetworkCall, DiskWrite])
   \<and> get_repository_url (Inr registry_remote) ''not-a-repo'' \<lparr>memory = [], disk = Missing\<rparr> =
     (Inl UnknownRepository,
      \<lparr>memory = registry_remote, disk = Stored registry_remote\<rparr>, [NetworkCall, DiskWrite])"
proof -
  have fetched: "get_registry (Inr registry_remote) False \<lparr>memory = [], disk = Missing\<rparr> =
      (Inr registry_remote, \<lparr>memory = registry_remote, disk = Stored registry_remote\<rparr>,
       [NetworkCall, DiskWrite])"
    by (simp add: get_registry_def fetch_registry_def)
  have present: "map_of registry_remote ''repo1'' =
      Some \<lparr>repo = ''https://hg.mozilla.org/releases/repo1'', graph_branches = [''Repo1''],
            repo_type = ''hg''\<rparr>"
    by (simp add: registry_remote_def)
  have absent: "map_of registry_remote ''not-a-repo'' = None"
    by (simp add: registry_remote_def)
  show ?thesis
    using repository_lookup [OF fetched, of "''repo1''"
        "\<lparr>repo = ''https://hg.mozilla.org/releases/repo1'', graph_branches = [''Repo1''],
          repo_type = ''hg''\<rparr>"]
      repository_lookup [OF fetched, of "''not-a-repo''"] present absent
    by simp
qed

end
